theory Spec2Isabelle
  imports Complex_Main "HOL-Library.AList"
begin

section \<open>Common model of the HTTP handlers and of the managed store\<close>

text \<open>
  A JavaScript number is modelled as a rational: every finite double is a rational and the
  comparisons \<open><\<close>, \<open>>\<close> of the handlers are exact on them. Epoch times are integers
  (milliseconds). A document field that may be absent (\<open>undefined\<close>) is an \<open>option\<close>.
\<close>

type_synonym number = rat
type_synonym millis = int

text \<open>
  \<open>res.status(c).json(...)\<close>: \<open>Success c data\<close> is a reply with \<open>success: true\<close>,
  \<open>Failed c message\<close> one with \<open>success: false\<close> and a message, \<open>Rejected\<close> the 400 reply
  that carries the validator's error array.
\<close>

datatype 'a response = Success nat 'a | Failed nat string | Rejected

text \<open>
  Every call to the managed store is awaited and may reject (network, permissions, SDK
  validation). Which calls reject is chosen by the environment: an \<open>outage\<close> is the set of
  store calls of the current request that reject.
\<close>

datatype store_op =
    Get_sensor | Set_reading | Set_status | Update_sensor | Add_alert | Add_notification
  | Get_status | Update_readings | Query_alerts
  | Get_livestock | Delete_livestock | Update_zone | Update_farm
  | Delete_farm | Update_farmer

type_synonym outage = "store_op set"

text \<open>\<open>FieldValue.serverTimestamp()\<close>: a sentinel the store replaces by its own clock.\<close>

datatype field_value = ServerTimestamp

text \<open>
  \<open>FieldValue.increment(n)\<close> adds \<open>n\<close> to a numeric field and sets an absent field to
  \<open>n\<close>.
\<close>

definition increment :: "int \<Rightarrow> int option \<Rightarrow> int option" where
  "increment n v = (case v of None \<Rightarrow> Some n | Some c \<Rightarrow> Some (c + n))"

text \<open>\<open>x || d\<close> on a numeric field: \<open>undefined\<close> and \<open>0\<close> are falsy.\<close>

definition or_default :: "number option \<Rightarrow> number \<Rightarrow> number" where
  "or_default v d = (case v of None \<Rightarrow> d | Some x \<Rightarrow> if x = 0 then d else x)"

subsection \<open>Documents\<close>

text \<open>
  A sensor document. \<open>routes/sensor.routes.js\<close> reads \<open>boundary_threshold\<close>, the variant of
  the file in \<open>unnamed/part_003\<close> reads \<open>max_distance_threshold\<close>.
\<close>

record sensor_unit =
  su_zone_id :: "string option"
  su_farm_id :: "string option"
  su_farmer_id :: "string option"
  su_location_description :: "string option"
  su_boundary_threshold :: "number option"
  su_max_distance_threshold :: "number option"
  su_last_reading :: "number option"
  su_last_reading_time :: "field_value option"
  su_is_operational :: "bool option"
  su_total_readings_today :: "int option"

text \<open>
  The template literal
  \<open>`Livestock detected ${distance}m from boundary at ${sensorData.location_description}`\<close>,
  kept as its two interpolated values.
\<close>

datatype description = Livestock_detected number "string option"

record alert =
  al_sensor_id :: string
  al_zone_id :: "string option"
  al_farm_id :: "string option"
  al_alert_type :: string
  al_security_level :: string
  al_trigger_distance :: number
  al_description :: description
  al_is_resolved :: bool
  al_detected_at :: field_value
  al_resolved_at :: "millis option"

record notification =
  nt_alert_id :: string
  nt_farmer_id :: "string option"
  nt_message :: description
  nt_is_read :: bool
  nt_delivery_status :: string
  nt_sent_at :: field_value

text \<open>The alert document written by the \<open>createAlert\<close> of \<open>unnamed/part_003\<close>.\<close>

record alert_p3 =
  ap_sensor_id :: string
  ap_zone_id :: "string option"
  ap_farm_id :: "string option"
  ap_alert_type :: string
  ap_breach_level :: string
  ap_breach_distance :: number
  ap_description :: description
  ap_is_resolved :: bool
  ap_detected_at :: field_value
  ap_resolved_at :: "millis option"

text \<open>
  A stored reading, at the path \<open>sensor_readings/${dateKey}/${sensor_id}/${key}\<close>. The
  date key is \<open>toISOString().split('T')[0]\<close>, the UTC date \<open>YYYY-MM-DD\<close> of an instant; it
  is represented by the number of that UTC day. The last segment is a push key or the
  decimal text of \<open>Date.now()\<close>.
\<close>

record reading =
  rd_sensor_id :: string
  rd_distance_measured :: "number option"
  rd_sensor_type :: "string option"
  rd_status :: string
  rd_timestamp :: "millis option"
  rd_zone_id :: "string option"
  rd_farm_id :: "string option"

datatype child_key = Push_key string | Millis_key millis

type_synonym reading_path = "int \<times> string \<times> child_key"

definition dateKey_of :: "millis \<Rightarrow> int" where
  "dateKey_of t = t div 86400000"

record live_status =
  ls_last_reading :: "number option"
  ls_last_timestamp :: "millis option"
  ls_status :: "string option"
  ls_is_online :: "bool option"
  ls_battery_level :: "number option"

text \<open>
  The fields of the livestock, zone, farm and farmer documents that the deletion handlers
  read or write. A livestock document names its zone and its farm (POST / requires both).
\<close>

record livestock_doc =
  lv_zone_id :: string
  lv_farm_id :: string
  lv_identification_tag :: string

record zone_doc =
  zn_zone_name :: string
  zn_current_livestock_count :: "int option"

record farm_doc =
  fm_farmer_id :: string
  fm_farm_name :: string
  fm_livestock_count :: "int option"

record farmer_doc =
  fr_name :: string
  fr_farms_count :: "int option"

text \<open>
  The store: Firestore collections by name (names are case sensitive, so \<open>alerts\<close> and
  \<open>Alerts\<close> are two collections), the Realtime Database nodes \<open>sensor_readings\<close> and
  \<open>sensor_status\<close>, and the lines written by \<open>console.error\<close>/\<open>console.log\<close>. A collection
  addressed by document id is an association list read with \<open>map_of\<close>; \<open>add\<close> appends a
  row under the id the store generates.
\<close>

record world =
  sensor_units :: "(string \<times> sensor_unit) list"
  alerts :: "(string \<times> alert) list"
  notifications :: "(string \<times> notification) list"
  Sensor_Units :: "(string \<times> sensor_unit) list"
  Alerts :: "(string \<times> alert_p3) list"
  sensor_readings :: "(reading_path \<times> reading) list"
  sensor_status :: "(string \<times> live_status) list"
  livestock :: "(string \<times> livestock_doc) list"
  boundary_zones :: "(string \<times> zone_doc) list"
  farms :: "(string \<times> farm_doc) list"
  farmers :: "(string \<times> farmer_doc) list"
  console :: "string list"

text \<open>\<open>process.env.IOT_API_KEY\<close>, undefined when the variable is not set.\<close>

record env =
  IOT_API_KEY :: "string option"

section \<open>routes/sensor.routes.js\<close>

subsection \<open>POST /reading\<close>

record reading_request =
  rq_sensor_id :: string
  rq_distance_measured :: "number option"
  rq_sensor_type :: string
  rq_api_key :: string

record reading_reply =
  rr_reading_id :: string
  rr_status :: string
  rr_timestamp :: millis

text \<open>The ids that \<open>add\<close> generates for the alert and the notification of one request.\<close>

record new_ids =
  alert_id :: string
  notification_id :: string

text \<open>
  \<open>createAlert(sensor_id, sensorData, distance)\<close>, lines 490-525: the whole body is inside
  \<open>try\<close>, and the \<open>catch\<close> only logs. A rejected \<open>add\<close> leaves what was written before it.
\<close>

definition alertData :: "string \<Rightarrow> sensor_unit \<Rightarrow> number \<Rightarrow> alert" where
  "alertData sensor_id sensorData distance =
     \<lparr> al_sensor_id = sensor_id,
       al_zone_id = su_zone_id sensorData,
       al_farm_id = su_farm_id sensorData,
       al_alert_type = ''boundary_breach'',
       al_security_level = (if distance < 25 then ''critical'' else ''high''),
       al_trigger_distance = distance,
       al_description = Livestock_detected distance (su_location_description sensorData),
       al_is_resolved = False,
       al_detected_at = ServerTimestamp,
       al_resolved_at = None \<rparr>"

definition createAlert :: "outage \<Rightarrow> new_ids \<Rightarrow> string \<Rightarrow> sensor_unit \<Rightarrow> number \<Rightarrow> world \<Rightarrow> world" where
  "createAlert out ids sensor_id sensorData distance w =
     (if Add_alert \<in> out
      then w\<lparr>console := console w @ [''Error creating alert:'']\<rparr>
      else
        let w1 = w\<lparr>alerts := alerts w @ [(alert_id ids, alertData sensor_id sensorData distance)]\<rparr>
        in if Add_notification \<in> out
           then w1\<lparr>console := console w1 @ [''Error creating alert:'']\<rparr>
           else w1\<lparr>notifications := notifications w1 @
                      [(notification_id ids,
                        \<lparr> nt_alert_id = alert_id ids,
                          nt_farmer_id = su_farmer_id sensorData,
                          nt_message = al_description (alertData sensor_id sensorData distance),
                          nt_is_read = False,
                          nt_delivery_status = ''pending'',
                          nt_sent_at = ServerTimestamp \<rparr>)],
                    console := console w1 @ [''Alert created: '' @ alert_id ids]\<rparr>)"

text \<open>The outer \<open>catch\<close> of the handler: log, reply 500; what was written stays written.\<close>

definition reading_failed :: "world \<Rightarrow> world \<times> reading_reply response" where
  "reading_failed w =
     (w\<lparr>console := console w @ [''Sensor reading error:'']\<rparr>,
      Failed 500 ''Failed to record sensor reading'')"

text \<open>
  The handler, lines 13-118. \<open>now\<close> is \<open>Date.now()\<close>, \<open>today\<close> the instant of
  \<open>new Date()\<close>, \<open>key\<close> the push key of \<open>readingRef\<close>. The validators are
  \<open>notEmpty\<close>, \<open>isFloat({min: 0})\<close> and \<open>isIn(['LIDAR', 'ULTRASONIC'])\<close>; a
  \<open>distance_measured\<close> that is missing or not numeric is \<open>None\<close>.
\<close>

definition post_reading ::
  "env \<Rightarrow> outage \<Rightarrow> millis \<Rightarrow> millis \<Rightarrow> string \<Rightarrow> new_ids \<Rightarrow> world \<Rightarrow> reading_request
     \<Rightarrow> world \<times> reading_reply response" where
  "post_reading e out now today key ids w req =
     (case rq_distance_measured req of
        None \<Rightarrow> (w, Rejected)
      | Some distance_measured \<Rightarrow>
        if rq_sensor_id req = [] \<or> \<not> 0 \<le> distance_measured
           \<or> rq_sensor_type req \<notin> {''LIDAR'', ''ULTRASONIC''} \<or> rq_api_key req = []
        then (w, Rejected)
        else if Some (rq_api_key req) \<noteq> IOT_API_KEY e
        then (w, Failed 401 ''Invalid API key'')
        else if Get_sensor \<in> out then reading_failed w
        else
          (case map_of (sensor_units w) (rq_sensor_id req) of
             None \<Rightarrow> (w, Failed 404 ''Sensor not found'')
           | Some sensorData \<Rightarrow>
             let threshold = or_default (su_boundary_threshold sensorData) 50;
                 status = (if distance_measured < threshold then ''alert'' else ''normal'');
                 readingData =
                   \<lparr> rd_sensor_id = rq_sensor_id req,
                     rd_distance_measured = Some distance_measured,
                     rd_sensor_type = Some (rq_sensor_type req),
                     rd_status = status,
                     rd_timestamp = Some now,
                     rd_zone_id = su_zone_id sensorData,
                     rd_farm_id = su_farm_id sensorData \<rparr>
             in if Set_reading \<in> out then reading_failed w
                else
                  let w1 = w\<lparr>sensor_readings :=
                             AList.update (dateKey_of today, rq_sensor_id req, Push_key key) readingData
                               (sensor_readings w)\<rparr>
                  in if Set_status \<in> out then reading_failed w1
                     else
                       let w2 = w1\<lparr>sensor_status :=
                                  AList.update (rq_sensor_id req)
                                    \<lparr> ls_last_reading = Some distance_measured,
                                      ls_last_timestamp = Some now,
                                      ls_status = Some status,
                                      ls_is_online = Some True,
                                      ls_battery_level = None \<rparr>
                                    (sensor_status w1)\<rparr>
                       in if Update_sensor \<in> out then reading_failed w2
                          else
                            let w3 = w2\<lparr>sensor_units :=
                                       AList.update (rq_sensor_id req)
                                         (sensorData
                                            \<lparr> su_last_reading := Some distance_measured,
                                              su_last_reading_time := Some ServerTimestamp,
                                              su_is_operational := Some True,
                                              su_total_readings_today :=
                                                increment 1 (su_total_readings_today sensorData) \<rparr>)
                                         (sensor_units w2)\<rparr>;
                                w4 = (if status = ''alert''
                                      then createAlert out ids (rq_sensor_id req) sensorData
                                             distance_measured w3
                                      else w3)
                            in (w4, Success 200
                                      \<lparr> rr_reading_id = key,
                                        rr_status = status,
                                        rr_timestamp = now \<rparr>)))"

subsection \<open>POST /reading in unnamed/part_003\<close>

record reading_reply_p3 = reading_reply +
  rr_distance_measured :: number
  rr_threshold :: number

text \<open>
  \<open>createAlert\<close> of \<open>unnamed/part_003\<close>, lines 521-544: one \<open>add\<close> to \<open>Alerts\<close> inside
  \<open>try\<close>/\<open>catch\<close>; no notification is written (the file declares the collection name
  \<open>Notifications\<close> and never uses it). The log lines are kept without their emoji.
\<close>

definition alertData_p3 :: "string \<Rightarrow> sensor_unit \<Rightarrow> number \<Rightarrow> alert_p3" where
  "alertData_p3 sensor_id sensorData distance =
     \<lparr> ap_sensor_id = sensor_id,
       ap_zone_id = su_zone_id sensorData,
       ap_farm_id = su_farm_id sensorData,
       ap_alert_type = ''Boundary Breach'',
       ap_breach_level = (if distance < 25 then ''Critical'' else ''High''),
       ap_breach_distance = distance,
       ap_description = Livestock_detected distance (su_location_description sensorData),
       ap_is_resolved = False,
       ap_detected_at = ServerTimestamp,
       ap_resolved_at = None \<rparr>"

definition createAlert_p3 :: "outage \<Rightarrow> new_ids \<Rightarrow> string \<Rightarrow> sensor_unit \<Rightarrow> number \<Rightarrow> world \<Rightarrow> world" where
  "createAlert_p3 out ids sensor_id sensorData distance w =
     (if Add_alert \<in> out
      then w\<lparr>console := console w @ [''Error creating alert:'']\<rparr>
      else w\<lparr>Alerts := Alerts w @ [(alert_id ids, alertData_p3 sensor_id sensorData distance)],
             console := console w @ [''Alert created: '' @ alert_id ids]\<rparr>)"

text \<open>
  The handler runs under \<open>asyncHandler\<close>: a rejection goes to the error middleware, which
  logs it and replies with the error's status, 500 for a plain rejection.
\<close>

definition reading_failed_p3 :: "world \<Rightarrow> world \<times> reading_reply_p3 response" where
  "reading_failed_p3 w =
     (w\<lparr>console := console w @ [''Error:'']\<rparr>, Failed 500 ''Internal server error'')"

definition post_reading_p3 ::
  "env \<Rightarrow> outage \<Rightarrow> millis \<Rightarrow> millis \<Rightarrow> string \<Rightarrow> new_ids \<Rightarrow> world \<Rightarrow> reading_request
     \<Rightarrow> world \<times> reading_reply_p3 response" where
  "post_reading_p3 e out now today key ids w req =
     (case rq_distance_measured req of
        None \<Rightarrow> (w, Rejected)
      | Some distance_measured \<Rightarrow>
        if rq_sensor_id req = [] \<or> \<not> 0 \<le> distance_measured
           \<or> rq_sensor_type req \<notin> {''LIDAR'', ''ULTRASONIC'', ''Ultrasonic''}
           \<or> rq_api_key req = []
        then (w, Rejected)
        else if Some (rq_api_key req) \<noteq> IOT_API_KEY e
        then (w, Failed 401 ''Invalid API key'')
        else if Get_sensor \<in> out then reading_failed_p3 w
        else
          (case map_of (Sensor_Units w) (rq_sensor_id req) of
             None \<Rightarrow> (w, Failed 404 (''Sensor not found with ID: '' @ rq_sensor_id req))
           | Some sensorData \<Rightarrow>
             let threshold = or_default (su_max_distance_threshold sensorData) 50;
                 status = (if distance_measured < threshold then ''alert'' else ''normal'');
                 readingData =
                   \<lparr> rd_sensor_id = rq_sensor_id req,
                     rd_distance_measured = Some distance_measured,
                     rd_sensor_type = Some (rq_sensor_type req),
                     rd_status = status,
                     rd_timestamp = Some now,
                     rd_zone_id = su_zone_id sensorData,
                     rd_farm_id = su_farm_id sensorData \<rparr>
             in if Set_reading \<in> out then reading_failed_p3 w
                else
                  let w1 = w\<lparr>sensor_readings :=
                             AList.update (dateKey_of today, rq_sensor_id req, Push_key key) readingData
                               (sensor_readings w)\<rparr>
                  in if Set_status \<in> out then reading_failed_p3 w1
                     else
                       let w2 = w1\<lparr>sensor_status :=
                                  AList.update (rq_sensor_id req)
                                    \<lparr> ls_last_reading = Some distance_measured,
                                      ls_last_timestamp = Some now,
                                      ls_status = Some status,
                                      ls_is_online = Some True,
                                      ls_battery_level = None \<rparr>
                                    (sensor_status w1)\<rparr>
                       in if Update_sensor \<in> out then reading_failed_p3 w2
                          else
                            let w3 = w2\<lparr>Sensor_Units :=
                                       AList.update (rq_sensor_id req)
                                         (sensorData
                                            \<lparr> su_last_reading := Some distance_measured,
                                              su_last_reading_time := Some ServerTimestamp,
                                              su_is_operational := Some True \<rparr>)
                                         (Sensor_Units w2)\<rparr>;
                                w4 = (if status = ''alert''
                                      then createAlert_p3 out ids (rq_sensor_id req) sensorData
                                             distance_measured w3
                                      else w3)
                            in (w4, Success 200
                                      \<lparr> rr_reading_id = key,
                                        rr_status = status,
                                        rr_timestamp = now,
                                        rr_distance_measured = distance_measured,
                                        rr_threshold = threshold \<rparr>)))"

subsection \<open>POST /batch\<close>

record batch_reading =
  bt_sensor_id :: string
  bt_distance_measured :: "number option"
  bt_sensor_type :: "string option"
  bt_timestamp :: "millis option"

record batch_reply =
  bp_processed :: nat
  bp_results :: "(string \<times> string) list"

text \<open>\<open>x < c\<close> on a field: \<open>undefined < c\<close> is false.\<close>

definition js_less :: "number option \<Rightarrow> number \<Rightarrow> bool" where
  "js_less v c = (case v of None \<Rightarrow> False | Some x \<Rightarrow> x < c)"

text \<open>
  The loop over \<open>readings\<close>, lines 142-155 (the same text at lines 258-271 of
  \<open>unnamed/part_003\<close>). \<open>clock i\<close> is \<open>Date.now()\<close> in iteration \<open>i\<close>. An assignment
  \<open>updates[path] = ...\<close> to a path already present overwrites it. \<open>toISOString()\<close> of an
  invalid date throws a \<open>RangeError\<close>: the result is \<open>None\<close>.
\<close>

fun batch_updates ::
  "(nat \<Rightarrow> millis) \<Rightarrow> nat \<Rightarrow> batch_reading list \<Rightarrow> (reading_path \<times> reading) list
     \<Rightarrow> (reading_path \<times> reading) list option" where
  "batch_updates clock i [] updates = Some updates"
| "batch_updates clock i (reading # readings) updates =
     (case bt_timestamp reading of
        None \<Rightarrow> None
      | Some t \<Rightarrow>
          batch_updates clock (Suc i) readings
            (AList.update (dateKey_of t, bt_sensor_id reading, Millis_key (clock i))
               \<lparr> rd_sensor_id = bt_sensor_id reading,
                 rd_distance_measured = bt_distance_measured reading,
                 rd_sensor_type = bt_sensor_type reading,
                 rd_status = (if js_less (bt_distance_measured reading) 50
                              then ''alert'' else ''normal''),
                 rd_timestamp = bt_timestamp reading,
                 rd_zone_id = None,
                 rd_farm_id = None \<rparr>
               updates))"

text \<open>\<open>realtimeDb.ref().update(updates)\<close>: every path of \<open>updates\<close> is set.\<close>

definition rtdb_update ::
  "(reading_path \<times> reading) list \<Rightarrow> (reading_path \<times> reading) list \<Rightarrow> (reading_path \<times> reading) list" where
  "rtdb_update updates node = fold (\<lambda>(path, v). AList.update path v) updates node"

definition batch_failed :: "world \<Rightarrow> world \<times> batch_reply response" where
  "batch_failed w =
     (w\<lparr>console := console w @ [''Batch reading error:'']\<rparr>,
      Failed 500 ''Failed to process batch readings'')"

text \<open>
  The handler, lines 125-174. It declares validators but never reads their result, and it
  never reads a sensor document.
\<close>

definition post_batch ::
  "env \<Rightarrow> outage \<Rightarrow> (nat \<Rightarrow> millis) \<Rightarrow> world \<Rightarrow> batch_reading list \<Rightarrow> string
     \<Rightarrow> world \<times> batch_reply response" where
  "post_batch e out clock w readings api_key =
     (if Some api_key \<noteq> IOT_API_KEY e then (w, Failed 401 ''Invalid API key'')
      else
        (case batch_updates clock 0 readings [] of
           None \<Rightarrow> batch_failed w
         | Some updates \<Rightarrow>
             if Update_readings \<in> out then batch_failed w
             else (w\<lparr>sensor_readings := rtdb_update updates (sensor_readings w)\<rparr>,
                   Success 200
                     \<lparr> bp_processed = length readings,
                       bp_results = map (\<lambda>reading. (bt_sensor_id reading, ''queued'')) readings \<rparr>)))"

text \<open>
  The handler of \<open>unnamed/part_003\<close>, lines 241-280: the \<open>validate\<close> middleware replies 400
  to an empty \<open>api_key\<close>, and a rejection goes to the error middleware.
\<close>

definition batch_failed_p3 :: "world \<Rightarrow> world \<times> batch_reply response" where
  "batch_failed_p3 w =
     (w\<lparr>console := console w @ [''Error:'']\<rparr>, Failed 500 ''Internal server error'')"

definition post_batch_p3 ::
  "env \<Rightarrow> outage \<Rightarrow> (nat \<Rightarrow> millis) \<Rightarrow> world \<Rightarrow> batch_reading list \<Rightarrow> string
     \<Rightarrow> world \<times> batch_reply response" where
  "post_batch_p3 e out clock w readings api_key =
     (if api_key = [] then (w, Rejected)
      else if Some api_key \<noteq> IOT_API_KEY e then (w, Failed 401 ''Invalid API key'')
      else
        (case batch_updates clock 0 readings [] of
           None \<Rightarrow> batch_failed_p3 w
         | Some updates \<Rightarrow>
             if Update_readings \<in> out then batch_failed_p3 w
             else (w\<lparr>sensor_readings := rtdb_update updates (sensor_readings w)\<rparr>,
                   Success 200
                     \<lparr> bp_processed = length readings,
                       bp_results = map (\<lambda>reading. (bt_sensor_id reading, ''queued'')) readings \<rparr>)))"

subsection \<open>GET /live/:sensorId\<close>

record live_reply = live_status +
  is_stale :: bool
  age_seconds :: "int option"

text \<open>
  The handler proper, lines 241-280 (the same computation at lines 326-352 of
  \<open>unnamed/part_003\<close>), reached after \<open>verifyToken\<close>. \<open>now\<close> and \<open>now'\<close> are the two
  readings of \<open>Date.now()\<close>. A record without \<open>last_timestamp\<close> gives \<open>NaN\<close>:
  \<open>NaN > 300000\<close> is false and \<open>Math.floor(NaN)\<close> is serialised as \<open>null\<close>.
\<close>

definition get_live :: "outage \<Rightarrow> millis \<Rightarrow> millis \<Rightarrow> world \<Rightarrow> string \<Rightarrow> live_reply response" where
  "get_live out now now' w sensorId =
     (if Get_status \<in> out then Failed 500 ''Failed to get live status''
      else
        (case map_of (sensor_status w) sensorId of
           None \<Rightarrow> Failed 404 ''No live data available for this sensor''
         | Some liveData \<Rightarrow>
             let isStale = (case ls_last_timestamp liveData of
                              None \<Rightarrow> False
                            | Some last_timestamp \<Rightarrow> now - last_timestamp > 300000)
             in Success 200
                  \<lparr> ls_last_reading = ls_last_reading liveData,
                    ls_last_timestamp = ls_last_timestamp liveData,
                    ls_status = ls_status liveData,
                    ls_is_online = ls_is_online liveData,
                    ls_battery_level = ls_battery_level liveData,
                    is_stale = isStale,
                    age_seconds = (case ls_last_timestamp liveData of
                                     None \<Rightarrow> None
                                   | Some last_timestamp \<Rightarrow>
                                       Some ((now' - last_timestamp) div 1000)) \<rparr>))"

section \<open>routes/analytics.routes.js\<close>

text \<open>
  A document of \<open>Alerts\<close> as the analytics handlers read it. Every handler below filters
  on \<open>created_at\<close>, so each document of a snapshot carries that timestamp;
  \<open>toDate()\<close> gives its epoch milliseconds. The handlers are functions of the snapshot
  that the query returned.
\<close>

record alert_event =
  ev_created_at :: millis
  ev_deviceId :: "string option"
  ev_alert :: bool
  ev_resolved :: bool
  ev_distance :: "number option"

text \<open>
  \<open>Date.prototype.getDay\<close> and \<open>getHours\<close> as ECMAScript defines them:
  \<open>WeekDay(LocalTime(t))\<close> and \<open>HourFromTime(LocalTime(t))\<close>, with
  \<open>LocalTime(t) = t + tza t\<close> for the offset \<open>tza t\<close> of the server's time zone at \<open>t\<close>.
\<close>

definition getDay :: "(millis \<Rightarrow> millis) \<Rightarrow> millis \<Rightarrow> nat" where
  "getDay tza t = nat (((t + tza t) div 86400000 + 4) mod 7)"

definition getHours :: "(millis \<Rightarrow> millis) \<Rightarrow> millis \<Rightarrow> nat" where
  "getHours tza t = nat (((t + tza t) div 3600000) mod 24)"

text \<open>\<open>Math.round(x * 100) / 100\<close>.\<close>

definition round2 :: "number \<Rightarrow> number" where
  "round2 x = of_int \<lfloor>x * 100 + 1 / 2\<rfloor> / 100"

subsection \<open>GET /heatmap\<close>

type_synonym matrix = "nat list list"

text \<open>
  \<open>heatmap[dayOfWeek][hour]++\<close>. Outside the matrix JavaScript throws a \<open>TypeError\<close> (no
  such row) or stores \<open>NaN\<close> (no such column); neither leaves a matrix of counts, and
  \<open>None\<close> stands for both.
\<close>

definition bump_cell :: "matrix \<Rightarrow> nat \<Rightarrow> nat \<Rightarrow> matrix option" where
  "bump_cell heatmap dayOfWeek hour =
     (if dayOfWeek < length heatmap \<and> hour < length (heatmap ! dayOfWeek)
      then Some (heatmap[dayOfWeek := (heatmap ! dayOfWeek)[hour := heatmap ! dayOfWeek ! hour + 1]])
      else None)"

fun heatmap_scan :: "(millis \<Rightarrow> millis) \<Rightarrow> alert_event list \<Rightarrow> matrix \<Rightarrow> matrix option" where
  "heatmap_scan tza [] heatmap = Some heatmap"
| "heatmap_scan tza (data # rest) heatmap =
     (case bump_cell heatmap (getDay tza (ev_created_at data)) (getHours tza (ev_created_at data)) of
        None \<Rightarrow> None
      | Some heatmap' \<Rightarrow> heatmap_scan tza rest heatmap')"

record heatmap_reply =
  hm_weeks :: "int option"
  hm_heatmap :: matrix
  hm_days :: "string list"
  hm_hours :: "nat list"

text \<open>
  The handler, lines 369-420. \<open>weeks\<close> is \<open>parseInt(weeks)\<close>; the hour labels
  \<open>`${i}:00`\<close> are kept as their numbers.
\<close>

definition get_heatmap ::
  "outage \<Rightarrow> (millis \<Rightarrow> millis) \<Rightarrow> int option \<Rightarrow> alert_event list \<Rightarrow> heatmap_reply response" where
  "get_heatmap out tza weeks snapshot =
     (if Query_alerts \<in> out then Failed 500 ''Failed to get heatmap data''
      else
        (case heatmap_scan tza snapshot (replicate 7 (replicate 24 0)) of
           None \<Rightarrow> Failed 500 ''Failed to get heatmap data''
         | Some heatmap \<Rightarrow>
             Success 200
               \<lparr> hm_weeks = weeks,
                 hm_heatmap = heatmap,
                 hm_days = [''Sunday'', ''Monday'', ''Tuesday'', ''Wednesday'', ''Thursday'',
                            ''Friday'', ''Saturday''],
                 hm_hours = [0..<24] \<rparr>))"

subsection \<open>GET /dashboard\<close>

record dashboard_acc =
  da_totalAlerts :: nat
  da_activeAlerts :: nat
  da_totalDistance :: number
  da_devices :: "string option list"

text \<open>The \<open>forEach\<close> of lines 51-57; \<open>devices\<close> is a \<open>Set\<close>.\<close>

fun dashboard_scan :: "alert_event list \<Rightarrow> dashboard_acc \<Rightarrow> dashboard_acc" where
  "dashboard_scan [] acc = acc"
| "dashboard_scan (data # rest) acc =
     dashboard_scan rest
       \<lparr> da_totalAlerts = da_totalAlerts acc + 1,
         da_activeAlerts = (if ev_alert data \<and> \<not> ev_resolved data
                            then da_activeAlerts acc + 1 else da_activeAlerts acc),
         da_totalDistance = da_totalDistance acc + or_default (ev_distance data) 0,
         da_devices = List.insert (ev_deviceId data) (da_devices acc) \<rparr>"

record dashboard_reply =
  db_timeRange :: string
  db_totalAlerts :: nat
  db_activeAlerts :: nat
  db_totalDevices :: nat
  db_avgDistance :: number
  db_alertRate :: number

text \<open>The handler, lines 11-82. Sums of distances are taken in the rationals.\<close>

definition get_dashboard :: "outage \<Rightarrow> string \<Rightarrow> alert_event list \<Rightarrow> dashboard_reply response" where
  "get_dashboard out timeRange snapshot =
     (if Query_alerts \<in> out then Failed 500 ''Failed to get dashboard statistics''
      else
        let acc = dashboard_scan snapshot
                    \<lparr> da_totalAlerts = 0, da_activeAlerts = 0, da_totalDistance = 0,
                      da_devices = [] \<rparr>;
            avgDistance = (if da_totalAlerts acc > 0
                           then da_totalDistance acc / of_nat (da_totalAlerts acc) else 0)
        in Success 200
             \<lparr> db_timeRange = timeRange,
               db_totalAlerts = da_totalAlerts acc,
               db_activeAlerts = da_activeAlerts acc,
               db_totalDevices = length (da_devices acc),
               db_avgDistance = round2 avgDistance,
               db_alertRate = of_nat (da_totalAlerts acc) /
                 (if timeRange = ''today'' then 24 else if timeRange = ''week'' then 168 else 720) \<rparr>)"

subsection \<open>GET /devices/:deviceId\<close>

text \<open>\<open>minDistance\<close> starts at \<open>Infinity\<close>, which is \<open>None\<close> here.\<close>

record detail_acc =
  dd_totalAlerts :: nat
  dd_activeAlerts :: nat
  dd_totalDistance :: number
  dd_minDistance :: "number option"
  dd_maxDistance :: number

fun detail_scan :: "alert_event list \<Rightarrow> detail_acc \<Rightarrow> detail_acc" where
  "detail_scan [] acc = acc"
| "detail_scan (data # rest) acc =
     (let distance = or_default (ev_distance data) 0
      in detail_scan rest
           \<lparr> dd_totalAlerts = dd_totalAlerts acc + 1,
             dd_activeAlerts = (if ev_alert data \<and> \<not> ev_resolved data
                                then dd_activeAlerts acc + 1 else dd_activeAlerts acc),
             dd_totalDistance = dd_totalDistance acc + distance,
             dd_minDistance = (case dd_minDistance acc of
                                 None \<Rightarrow> Some distance
                               | Some m \<Rightarrow> if distance < m then Some distance else Some m),
             dd_maxDistance = (if distance > dd_maxDistance acc then distance
                               else dd_maxDistance acc) \<rparr>)"

record detail_reply =
  dt_deviceId :: string
  dt_totalAlerts :: nat
  dt_activeAlerts :: nat
  dt_avgDistance :: number
  dt_minDistance :: number
  dt_maxDistance :: number

text \<open>The handler, lines 303-362.\<close>

definition get_device_detail :: "outage \<Rightarrow> string \<Rightarrow> alert_event list \<Rightarrow> detail_reply response" where
  "get_device_detail out deviceId snapshot =
     (if Query_alerts \<in> out then Failed 500 ''Failed to get device analytics''
      else
        let acc = detail_scan snapshot
                    \<lparr> dd_totalAlerts = 0, dd_activeAlerts = 0, dd_totalDistance = 0,
                      dd_minDistance = None, dd_maxDistance = 0 \<rparr>;
            avgDistance = (if dd_totalAlerts acc > 0
                           then dd_totalDistance acc / of_nat (dd_totalAlerts acc) else 0)
        in Success 200
             \<lparr> dt_deviceId = deviceId,
               dt_totalAlerts = dd_totalAlerts acc,
               dt_activeAlerts = dd_activeAlerts acc,
               dt_avgDistance = round2 avgDistance,
               dt_minDistance = (case dd_minDistance acc of None \<Rightarrow> 0 | Some m \<Rightarrow> m),
               dt_maxDistance = dd_maxDistance acc \<rparr>)"

subsection \<open>GET /hourly\<close>

record hour_bucket =
  hb_hour :: nat
  hb_total :: nat
  hb_alerts :: nat
  hb_normal :: nat

text \<open>
  The \<open>forEach\<close> of lines 198-204; \<open>hourly[hour].total++\<close> on a missing bucket throws a
  \<open>TypeError\<close>, which is \<open>None\<close>.
\<close>

fun hourly_scan ::
  "(millis \<Rightarrow> millis) \<Rightarrow> alert_event list \<Rightarrow> hour_bucket list \<Rightarrow> hour_bucket list option" where
  "hourly_scan tza [] hourly = Some hourly"
| "hourly_scan tza (data # rest) hourly =
     (let hour = getHours tza (ev_created_at data)
      in if hour < length hourly
         then hourly_scan tza rest
                (hourly[hour :=
                   (hourly ! hour)
                     \<lparr> hb_total := hb_total (hourly ! hour) + 1,
                       hb_alerts := (if ev_alert data then hb_alerts (hourly ! hour) + 1
                                     else hb_alerts (hourly ! hour)),
                       hb_normal := (if ev_alert data then hb_normal (hourly ! hour)
                                     else hb_normal (hourly ! hour) + 1) \<rparr>])
         else None)"

record hourly_reply =
  hr_date :: int
  hr_hourly :: "hour_bucket list"

text \<open>The handler, lines 169-223; \<open>targetDate\<close> is the instant of the queried day.\<close>

definition get_hourly ::
  "outage \<Rightarrow> (millis \<Rightarrow> millis) \<Rightarrow> millis \<Rightarrow> alert_event list \<Rightarrow> hourly_reply response" where
  "get_hourly out tza targetDate snapshot =
     (if Query_alerts \<in> out then Failed 500 ''Failed to get hourly breakdown''
      else
        (case hourly_scan tza snapshot
                (map (\<lambda>i. \<lparr> hb_hour = i, hb_total = 0, hb_alerts = 0, hb_normal = 0 \<rparr>) [0..<24]) of
           None \<Rightarrow> Failed 500 ''Failed to get hourly breakdown''
         | Some hourly \<Rightarrow> Success 200 \<lparr> hr_date = dateKey_of targetDate, hr_hourly = hourly \<rparr>))"

subsection \<open>GET /trends\<close>

record trend_bucket =
  tb_total :: nat
  tb_alerts :: nat
  tb_normal :: nat

text \<open>
  The \<open>forEach\<close> of lines 115-143. \<open>key_of\<close> is the key that the \<open>switch\<close> on the interval
  builds from the local calendar fields of the date.
\<close>

fun trends_scan ::
  "(millis \<Rightarrow> string) \<Rightarrow> alert_event list \<Rightarrow> (string \<times> trend_bucket) list
     \<Rightarrow> (string \<times> trend_bucket) list" where
  "trends_scan key_of [] trends = trends"
| "trends_scan key_of (data # rest) trends =
     (let key = key_of (ev_created_at data);
          bucket = (case map_of trends key of
                      None \<Rightarrow> \<lparr> tb_total = 0, tb_alerts = 0, tb_normal = 0 \<rparr>
                    | Some b \<Rightarrow> b)
      in trends_scan key_of rest
           (AList.update key
              \<lparr> tb_total = tb_total bucket + 1,
                tb_alerts = (if ev_alert data then tb_alerts bucket + 1 else tb_alerts bucket),
                tb_normal = (if ev_alert data then tb_normal bucket else tb_normal bucket + 1) \<rparr>
              trends))"

record trends_reply =
  tr_interval :: string
  tr_trends :: "(string \<times> trend_bucket) list"

text \<open>
  The handler, lines 89-162. A query parameter that is missing is \<open>None\<close>; a missing and
  an empty one are falsy.
\<close>

definition get_trends ::
  "outage \<Rightarrow> (string \<Rightarrow> millis \<Rightarrow> string) \<Rightarrow> string option \<Rightarrow> string option \<Rightarrow> string
     \<Rightarrow> alert_event list \<Rightarrow> trends_reply response" where
  "get_trends out bucket_key startDate endDate interval snapshot =
     (if startDate \<in> {None, Some []} \<or> endDate \<in> {None, Some []}
      then Failed 400 ''startDate and endDate are required''
      else if Query_alerts \<in> out then Failed 500 ''Failed to get trends''
      else Success 200
             \<lparr> tr_interval = interval,
               tr_trends = trends_scan (bucket_key interval) snapshot [] \<rparr>)"

section \<open>routes/livestock.routes.js (unnamed/part_004)\<close>

subsection \<open>DELETE /:livestockId\<close>

record removed_reply =
  rm_livestock_id :: string
  rm_identification_tag :: string

definition livestock_failed :: "world \<Rightarrow> world \<times> removed_reply response" where
  "livestock_failed w =
     (w\<lparr>console := console w @ [''Delete livestock error:'']\<rparr>,
      Failed 500 ''Failed to remove livestock'')"

text \<open>
  The handler, lines 377-435. \<open>update\<close> rejects when the document does not exist;
  \<open>delete\<close> does not.
\<close>

definition delete_livestock :: "outage \<Rightarrow> world \<Rightarrow> string \<Rightarrow> world \<times> removed_reply response" where
  "delete_livestock out w livestockId =
     (if Get_livestock \<in> out then livestock_failed w
      else
        (case map_of (livestock w) livestockId of
           None \<Rightarrow> (w, Failed 404 ''Livestock not found'')
         | Some livestockData \<Rightarrow>
             if Delete_livestock \<in> out then livestock_failed w
             else
               let w1 = w\<lparr>livestock := AList.delete livestockId (livestock w)\<rparr>
               in (case map_of (boundary_zones w1) (lv_zone_id livestockData) of
                     None \<Rightarrow> livestock_failed w1
                   | Some zone \<Rightarrow>
                       if Update_zone \<in> out then livestock_failed w1
                       else
                         let w2 = w1\<lparr>boundary_zones :=
                                    AList.update (lv_zone_id livestockData)
                                      (zone\<lparr>zn_current_livestock_count :=
                                               increment (- 1) (zn_current_livestock_count zone)\<rparr>)
                                      (boundary_zones w1)\<rparr>
                         in (case map_of (farms w2) (lv_farm_id livestockData) of
                               None \<Rightarrow> livestock_failed w2
                             | Some farm \<Rightarrow>
                                 if Update_farm \<in> out then livestock_failed w2
                                 else
                                   (w2\<lparr>farms :=
                                         AList.update (lv_farm_id livestockData)
                                           (farm\<lparr>fm_livestock_count :=
                                                    increment (- 1) (fm_livestock_count farm)\<rparr>)
                                           (farms w2)\<rparr>,
                                    Success 200
                                      \<lparr> rm_livestock_id = livestockId,
                                        rm_identification_tag =
                                          lv_identification_tag livestockData \<rparr>)))))"

section \<open>routes/farm.routes.js (unnamed/part_006)\<close>

subsection \<open>DELETE /:farmId\<close>

definition farm_failed :: "world \<Rightarrow> world \<times> unit response" where
  "farm_failed w =
     (w\<lparr>console := console w @ [''Delete farm error:'']\<rparr>, Failed 500 ''Failed to delete farm'')"

text \<open>
  The handler, lines 212-243; \<open>farmer_id\<close> is \<open>req.user.userId\<close>. The farm document is
  deleted without being read.
\<close>

definition delete_farm :: "outage \<Rightarrow> world \<Rightarrow> string \<Rightarrow> string \<Rightarrow> world \<times> unit response" where
  "delete_farm out w farmer_id farmId =
     (if Delete_farm \<in> out then farm_failed w
      else
        let w1 = w\<lparr>farms := AList.delete farmId (farms w)\<rparr>
        in (case map_of (farmers w1) farmer_id of
              None \<Rightarrow> farm_failed w1
            | Some farmer \<Rightarrow>
                if Update_farmer \<in> out then farm_failed w1
                else
                  (w1\<lparr>farmers :=
                        AList.update farmer_id
                          (farmer\<lparr>fr_farms_count := increment (- 1) (fr_farms_count farmer)\<rparr>)
                          (farmers w1)\<rparr>,
                   Success 200 ())))"

section \<open>Observations used by the properties\<close>

text \<open>The counters of the parent documents, and the farms that a farmer really has.\<close>

definition zone_count :: "world \<Rightarrow> string \<Rightarrow> int option" where
  "zone_count w z = (case map_of (boundary_zones w) z of
                       None \<Rightarrow> None | Some zone \<Rightarrow> zn_current_livestock_count zone)"

definition farm_count :: "world \<Rightarrow> string \<Rightarrow> int option" where
  "farm_count w f = (case map_of (farms w) f of
                       None \<Rightarrow> None | Some farm \<Rightarrow> fm_livestock_count farm)"

definition farms_count :: "world \<Rightarrow> string \<Rightarrow> int option" where
  "farms_count w farmer_id = (case map_of (farmers w) farmer_id of
                                None \<Rightarrow> None | Some farmer \<Rightarrow> fr_farms_count farmer)"

definition farms_of :: "world \<Rightarrow> string \<Rightarrow> (string \<times> farm_doc) list" where
  "farms_of w farmer_id = filter (\<lambda>(farmId, farm). fm_farmer_id farm = farmer_id) (farms w)"

definition matrix_total :: "matrix \<Rightarrow> nat" where
  "matrix_total heatmap = sum_list (map sum_list heatmap)"

definition shaped :: "matrix \<Rightarrow> bool" where
  "shaped heatmap = (length heatmap = 7 \<and> (\<forall>row \<in> set heatmap. length row = 24))"

definition in_cell :: "(millis \<Rightarrow> millis) \<Rightarrow> nat \<Rightarrow> nat \<Rightarrow> alert_event \<Rightarrow> bool" where
  "in_cell tza d h data =
     (getDay tza (ev_created_at data) = d \<and> getHours tza (ev_created_at data) = h)"

subsection \<open>A small farm, used to run the handlers\<close>

definition sample_sensor :: "number option \<Rightarrow> sensor_unit" where
  "sample_sensor threshold =
     \<lparr> su_zone_id = Some ''z1'', su_farm_id = Some ''f1'', su_farmer_id = None,
       su_location_description = Some ''North fence corner'',
       su_boundary_threshold = threshold, su_max_distance_threshold = threshold,
       su_last_reading = None, su_last_reading_time = None, su_is_operational = Some True,
       su_total_readings_today = Some 0 \<rparr>"

definition sample_world :: "number option \<Rightarrow> world" where
  "sample_world threshold =
     \<lparr> sensor_units = [(''s1'', sample_sensor threshold)],
       alerts = [], notifications = [],
       Sensor_Units = [(''s1'', sample_sensor threshold)],
       Alerts = [],
       sensor_readings = [],
       sensor_status = [(''s1'', \<lparr> ls_last_reading = Some 0, ls_last_timestamp = Some 1000,
                                  ls_status = Some ''inactive'', ls_is_online = Some False,
                                  ls_battery_level = None \<rparr>)],
       livestock = [(''l1'', \<lparr> lv_zone_id = ''z1'', lv_farm_id = ''f1'',
                              lv_identification_tag = ''TAG-1'' \<rparr>)],
       boundary_zones = [(''z1'', \<lparr> zn_zone_name = ''Zone A'', zn_current_livestock_count = Some 1 \<rparr>),
                         (''z2'', \<lparr> zn_zone_name = ''Zone B'', zn_current_livestock_count = Some 0 \<rparr>)],
       farms = [(''f1'', \<lparr> fm_farmer_id = ''u1'', fm_farm_name = ''Farm 1'',
                          fm_livestock_count = Some 1 \<rparr>)],
       farmers = [(''u1'', \<lparr> fr_name = ''Ana'', fr_farms_count = Some 1 \<rparr>)],
       console = [] \<rparr>"

definition sample_env :: env where
  "sample_env = \<lparr> IOT_API_KEY = Some ''secret'' \<rparr>"

definition sample_request :: "number \<Rightarrow> reading_request" where
  "sample_request d =
     \<lparr> rq_sensor_id = ''s1'', rq_distance_measured = Some d, rq_sensor_type = ''LIDAR'',
       rq_api_key = ''secret'' \<rparr>"

definition sample_ids :: new_ids where
  "sample_ids = \<lparr> alert_id = ''a1'', notification_id = ''n1'' \<rparr>"

definition sample_batch :: "number \<Rightarrow> batch_reading list" where
  "sample_batch d =
     [\<lparr> bt_sensor_id = ''s1'', bt_distance_measured = Some d, bt_sensor_type = Some ''LIDAR'',
        bt_timestamp = Some 4000 \<rparr>]"

text \<open>Two alerts: Thursday 1 January 1970 at 00:00 UTC and the Friday after it at 01:00.\<close>

definition sample_events :: "alert_event list" where
  "sample_events =
     [\<lparr> ev_created_at = 0, ev_deviceId = Some ''s1'', ev_alert = True, ev_resolved = False,
        ev_distance = Some 30 \<rparr>,
      \<lparr> ev_created_at = 90000000, ev_deviceId = Some ''s1'', ev_alert = True, ev_resolved = True,
        ev_distance = Some 10 \<rparr>]"

section \<open>Properties of the reading handler\<close>




lemma post_reading_success_cases:
  assumes "post_reading e out now today key ids w req = (w', Success 200 r)"
  obtains d sensorData where "rq_distance_measured req = Some d"
     and "map_of (sensor_units w) (rq_sensor_id req) = Some sensorData"
  using assms
  by (auto simp: post_reading_def reading_failed_def Let_def split: if_splits option.splits)


text \<open>The rows that a successful request leaves in the alert and notification collections.\<close>

lemma post_reading_rows:
  assumes "post_reading e out now today key ids w req = (w', Success 200 r)"
    and "rq_distance_measured req = Some d"
    and "map_of (sensor_units w) (rq_sensor_id req) = Some sensorData"
  shows "alerts w' =
           (if rr_status r = ''alert'' \<and> Add_alert \<notin> out
            then alerts w @ [(alert_id ids, alertData (rq_sensor_id req) sensorData d)]
            else alerts w)"
    and "notifications w' =
           (if rr_status r = ''alert'' \<and> Add_alert \<notin> out \<and> Add_notification \<notin> out
            then notifications w @
                   [(notification_id ids,
                     \<lparr> nt_alert_id = alert_id ids,
                       nt_farmer_id = su_farmer_id sensorData,
                       nt_message = Livestock_detected d (su_location_description sensorData),
                       nt_is_read = False,
                       nt_delivery_status = ''pending'',
                       nt_sent_at = ServerTimestamp \<rparr>)]
            else notifications w)"
  using assms
  by (auto simp: post_reading_def reading_failed_def createAlert_def alertData_def Let_def
           split: if_splits)


lemma post_reading_alert_row:
  assumes "post_reading e out now today key ids w req = (w', Success 200 r)"
    and "rr_status r = ''alert''" and "Add_alert \<notin> out"
  shows "\<exists>a. alerts w' = alerts w @ [(alert_id ids, a)]"
proof -
  from assms(1) obtain d sensorData where d: "rq_distance_measured req = Some d"
    and sd: "map_of (sensor_units w) (rq_sensor_id req) = Some sensorData"
    by (rule post_reading_success_cases)
  from post_reading_rows(1)[OF assms(1) d sd] assms(2,3) show ?thesis by simp
qed

lemma post_reading_notification_row:
  assumes "post_reading e out now today key ids w req = (w', Success 200 r)"
    and "rr_status r = ''alert''" and "Add_alert \<notin> out" and "Add_notification \<notin> out"
  shows "\<exists>n. notifications w' = notifications w @ [(notification_id ids, n)] \<and>
             nt_alert_id n = alert_id ids"
proof -
  from assms(1) obtain d sensorData where d: "rq_distance_measured req = Some d"
    and sd: "map_of (sensor_units w) (rq_sensor_id req) = Some sensorData"
    by (rule post_reading_success_cases)
  from post_reading_rows(2)[OF assms(1) d sd] assms(2,3,4) show ?thesis by simp
qed

text \<open>A breach reading whose alert or notification write is rejected.\<close>

lemma post_reading_swallows:
  assumes "rq_distance_measured req = Some d" and "0 \<le> d"
    and "rq_sensor_id req \<noteq> []" and "rq_sensor_type req \<in> {''LIDAR'', ''ULTRASONIC''}"
    and "rq_api_key req \<noteq> []" and "IOT_API_KEY e = Some (rq_api_key req)"
    and "map_of (sensor_units w) (rq_sensor_id req) = Some sensorData"
    and "d < or_default (su_boundary_threshold sensorData) 50"
    and "Get_sensor \<notin> out" and "Set_reading \<notin> out" and "Set_status \<notin> out"
    and "Update_sensor \<notin> out"
    and "Add_alert \<in> out \<or> Add_notification \<in> out"
    and "post_reading e out now today key ids w req = (w', reply)"
  shows "reply = Success 200 \<lparr> rr_reading_id = key, rr_status = ''alert'', rr_timestamp = now \<rparr>
    \<and> map_of (sensor_readings w') (dateKey_of today, rq_sensor_id req, Push_key key) =
        Some \<lparr> rd_sensor_id = rq_sensor_id req, rd_distance_measured = Some d,
               rd_sensor_type = Some (rq_sensor_type req), rd_status = ''alert'',
               rd_timestamp = Some now, rd_zone_id = su_zone_id sensorData,
               rd_farm_id = su_farm_id sensorData \<rparr>
    \<and> map_of (sensor_status w') (rq_sensor_id req) =
        Some \<lparr> ls_last_reading = Some d, ls_last_timestamp = Some now,
               ls_status = Some ''alert'', ls_is_online = Some True, ls_battery_level = None \<rparr>
    \<and> console w' = console w @ [''Error creating alert:'']
    \<and> notifications w' = notifications w"
  using assms
  by (auto simp: post_reading_def createAlert_def Let_def update_conv')







text \<open>
  What \<open>createAlert\<close> of \<open>routes/sensor.routes.js\<close> writes for a breach reading when the
  store accepts both writes: one alert row and one notification row that refers to it.
  Earlier alerts are not consulted, so two breach readings in a row leave two alert rows.
\<close>

lemma sensor_routes_breach_rows:
  "(post_reading e out now today key ids w req = (w', Success 200 r) \<longrightarrow>
      rr_status r = ''alert'' \<longrightarrow> Add_alert \<notin> out \<longrightarrow> Add_notification \<notin> out \<longrightarrow>
      (\<exists>a n. alerts w' = alerts w @ [(alert_id ids, a)] \<and>
             notifications w' = notifications w @ [(notification_id ids, n)] \<and>
             nt_alert_id n = alert_id ids))
   \<and>
   (post_reading e out now today key ids w req = (w', Success 200 r) \<longrightarrow>
    post_reading e out' now' today' key' ids' w' req' = (w'', Success 200 r') \<longrightarrow>
      rr_status r = ''alert'' \<longrightarrow> rr_status r' = ''alert'' \<longrightarrow>
      Add_alert \<notin> out \<longrightarrow> Add_alert \<notin> out' \<longrightarrow>
      (\<exists>a a'. alerts w'' = alerts w @ [(alert_id ids, a), (alert_id ids', a')]))"
proof (intro conjI impI)
  assume a: "post_reading e out now today key ids w req = (w', Success 200 r)"
    "rr_status r = ''alert''" "Add_alert \<notin> out" "Add_notification \<notin> out"
  from post_reading_alert_row[OF a(1,2,3)] post_reading_notification_row[OF a]
  show "\<exists>a n. alerts w' = alerts w @ [(alert_id ids, a)] \<and>
             notifications w' = notifications w @ [(notification_id ids, n)] \<and>
             nt_alert_id n = alert_id ids"
    by blast
next
  assume a: "post_reading e out now today key ids w req = (w', Success 200 r)"
    "rr_status r = ''alert''" "Add_alert \<notin> out"
    and b: "post_reading e out' now' today' key' ids' w' req' = (w'', Success 200 r')"
    "rr_status r' = ''alert''" "Add_alert \<notin> out'"
  from post_reading_alert_row[OF a] post_reading_alert_row[OF b]
  show "\<exists>a a'. alerts w'' = alerts w @ [(alert_id ids, a), (alert_id ids', a')]"
    by auto
qed

text \<open>
  C3, at a failing input. The sample sensor has the threshold 50 and the reading the
  distance 30, and the store accepts every write. \<open>routes/sensor.routes.js\<close> replies
  \<open>alert\<close> and leaves one alert row and one notification row that refers to it, as the
  claim says. \<open>unnamed/part_003\<close> replies \<open>alert\<close> and leaves one alert row and no
  notification row: its \<open>createAlert\<close> lacks the second \<open>add\<close>.
\<close>

theorem breach_reading_without_notification:
  "snd (post_reading sample_env {} 5000 5000 ''r1'' sample_ids (sample_world (Some 50))
          (sample_request 30))
     = Success 200 \<lparr> rr_reading_id = ''r1'', rr_status = ''alert'', rr_timestamp = 5000 \<rparr>
   \<and> map fst (alerts (fst (post_reading sample_env {} 5000 5000 ''r1'' sample_ids
                 (sample_world (Some 50)) (sample_request 30)))) = [''a1'']
   \<and> map (nt_alert_id \<circ> snd)
         (notifications (fst (post_reading sample_env {} 5000 5000 ''r1'' sample_ids
                 (sample_world (Some 50)) (sample_request 30)))) = [''a1'']
   \<and> snd (post_reading_p3 sample_env {} 5000 5000 ''r1'' sample_ids (sample_world (Some 50))
          (sample_request 30))
     = Success 200 \<lparr> rr_reading_id = ''r1'', rr_status = ''alert'', rr_timestamp = 5000,
                     rr_distance_measured = 30, rr_threshold = 50 \<rparr>
   \<and> map fst (Alerts (fst (post_reading_p3 sample_env {} 5000 5000 ''r1'' sample_ids
                 (sample_world (Some 50)) (sample_request 30)))) = [''a1'']
   \<and> notifications (sample_world (Some 50)) = []
   \<and> notifications (fst (post_reading_p3 sample_env {} 5000 5000 ''r1'' sample_ids
                 (sample_world (Some 50)) (sample_request 30))) = []"
  by (simp add: post_reading_def post_reading_p3_def sample_sensor_def sample_world_def
      sample_env_def sample_request_def sample_ids_def or_default_def Let_def
      createAlert_def createAlert_p3_def alertData_def increment_def)

theorem breach_reading_without_notification_witness:
  "length (notifications (fst (post_reading_p3 sample_env {} 5000 5000 ''r1'' sample_ids
                 (sample_world (Some 50)) (sample_request 30))))
   \<noteq> length (notifications (fst (post_reading sample_env {} 5000 5000 ''r1'' sample_ids
                 (sample_world (Some 50)) (sample_request 30))))"
proof -
  from breach_reading_without_notification
  have "length (map (nt_alert_id \<circ> snd)
          (notifications (fst (post_reading sample_env {} 5000 5000 ''r1'' sample_ids
                 (sample_world (Some 50)) (sample_request 30))))) = 1"
    and "notifications (fst (post_reading_p3 sample_env {} 5000 5000 ''r1'' sample_ids
                 (sample_world (Some 50)) (sample_request 30))) = []"
    by simp_all
  then show ?thesis
    by simp
qed

text \<open>
  C4. When a valid breach reading has been stored (sensor read, reading, live status and
  sensor document written) and the write of the alert or of the notification is rejected,
  POST /reading still replies 200 with the status \<open>alert\<close>; the stored reading and the live
  status are as written, and the rejection is only logged.
\<close>

theorem alert_recording_failure_is_swallowed:
  "rq_distance_measured req = Some d \<longrightarrow> 0 \<le> d \<longrightarrow>
   rq_sensor_id req \<noteq> [] \<longrightarrow> rq_sensor_type req \<in> {''LIDAR'', ''ULTRASONIC''} \<longrightarrow>
   rq_api_key req \<noteq> [] \<longrightarrow> IOT_API_KEY e = Some (rq_api_key req) \<longrightarrow>
   map_of (sensor_units w) (rq_sensor_id req) = Some sensorData \<longrightarrow>
   d < or_default (su_boundary_threshold sensorData) 50 \<longrightarrow>
   Get_sensor \<notin> out \<longrightarrow> Set_reading \<notin> out \<longrightarrow> Set_status \<notin> out \<longrightarrow> Update_sensor \<notin> out \<longrightarrow>
   (Add_alert \<in> out \<or> Add_notification \<in> out) \<longrightarrow>
   post_reading e out now today key ids w req = (w', reply) \<longrightarrow>
     reply = Success 200 \<lparr> rr_reading_id = key, rr_status = ''alert'', rr_timestamp = now \<rparr>
     \<and> map_of (sensor_readings w') (dateKey_of today, rq_sensor_id req, Push_key key) =
         Some \<lparr> rd_sensor_id = rq_sensor_id req, rd_distance_measured = Some d,
                rd_sensor_type = Some (rq_sensor_type req), rd_status = ''alert'',
                rd_timestamp = Some now, rd_zone_id = su_zone_id sensorData,
                rd_farm_id = su_farm_id sensorData \<rparr>
     \<and> map_of (sensor_status w') (rq_sensor_id req) =
         Some \<lparr> ls_last_reading = Some d, ls_last_timestamp = Some now,
                ls_status = Some ''alert'', ls_is_online = Some True, ls_battery_level = None \<rparr>
     \<and> console w' = console w @ [''Error creating alert:'']
     \<and> notifications w' = notifications w"
  using post_reading_swallows[of req d e w sensorData out now today key ids w' reply]
  by blast

theorem alert_recording_failure_is_swallowed_witness:
  "rq_distance_measured (sample_request 30) = Some 30 \<and> (0::rat) \<le> 30
   \<and> rq_sensor_id (sample_request 30) \<noteq> []
   \<and> rq_sensor_type (sample_request 30) \<in> {''LIDAR'', ''ULTRASONIC''}
   \<and> rq_api_key (sample_request 30) \<noteq> []
   \<and> IOT_API_KEY sample_env = Some (rq_api_key (sample_request 30))
   \<and> map_of (sensor_units (sample_world (Some 50))) (rq_sensor_id (sample_request 30))
       = Some (sample_sensor (Some 50))
   \<and> 30 < or_default (su_boundary_threshold (sample_sensor (Some 50))) 50
   \<and> Get_sensor \<notin> {Add_alert} \<and> Set_reading \<notin> {Add_alert} \<and> Set_status \<notin> {Add_alert}
   \<and> Update_sensor \<notin> {Add_alert} \<and> Add_alert \<in> {Add_alert}
   \<and> snd (post_reading sample_env {Add_alert} 5000 5000 ''r1'' sample_ids
             (sample_world (Some 50)) (sample_request 30))
       = Success 200 \<lparr> rr_reading_id = ''r1'', rr_status = ''alert'', rr_timestamp = 5000 \<rparr>
   \<and> map rd_status (map snd (sensor_readings
         (fst (post_reading sample_env {Add_alert} 5000 5000 ''r1'' sample_ids
                 (sample_world (Some 50)) (sample_request 30))))) = [''alert'']
   \<and> alerts (fst (post_reading sample_env {Add_alert} 5000 5000 ''r1'' sample_ids
                 (sample_world (Some 50)) (sample_request 30))) = []
   \<and> console (fst (post_reading sample_env {Add_alert} 5000 5000 ''r1'' sample_ids
                 (sample_world (Some 50)) (sample_request 30))) = [''Error creating alert:'']"
  using alert_recording_failure_is_swallowed
    [where req = "sample_request 30" and d = 30 and e = sample_env
       and w = "sample_world (Some 50)" and sensorData = "sample_sensor (Some 50)"
       and out = "{Add_alert}" and now = 5000 and today = 5000 and key = "''r1''"
       and ids = sample_ids
       and w' = "fst (post_reading sample_env {Add_alert} 5000 5000 ''r1'' sample_ids
                        (sample_world (Some 50)) (sample_request 30))"
       and reply = "snd (post_reading sample_env {Add_alert} 5000 5000 ''r1'' sample_ids
                        (sample_world (Some 50)) (sample_request 30))"]
  by (simp add: post_reading_def sample_sensor_def sample_world_def sample_env_def
      sample_request_def sample_ids_def or_default_def Let_def createAlert_def
      increment_def)

section \<open>Properties of the live status and of the batch path\<close>

text \<open>
  C5. When the live record of the sensor exists and carries the last timestamp \<open>ts\<close>,
  GET /live/:sensorId replies 200 with \<open>is_stale\<close> true exactly when
  \<open>now - ts > 300000\<close>; at an age of exactly 300000 ms the flag is false.
\<close>

theorem live_status_stale_iff_older_than_5_minutes:
  "Get_status \<notin> out \<longrightarrow> map_of (sensor_status w) sensorId = Some liveData \<longrightarrow>
     ls_last_timestamp liveData = Some ts \<longrightarrow>
     (\<exists>r. get_live out now now' w sensorId = Success 200 r \<and>
          is_stale r = (now - ts > 300000) \<and> (now - ts = 300000 \<longrightarrow> \<not> is_stale r))"
  by (simp add: get_live_def)

theorem live_status_stale_iff_older_than_5_minutes_witness:
  "Get_status \<notin> ({} :: outage)
   \<and> map_of (sensor_status (sample_world (Some 50))) ''s1''
       = Some \<lparr> ls_last_reading = Some 0, ls_last_timestamp = Some 1000,
                ls_status = Some ''inactive'', ls_is_online = Some False,
                ls_battery_level = None \<rparr>
   \<and> get_live {} 301000 301000 (sample_world (Some 50)) ''s1''
       = Success 200 \<lparr> ls_last_reading = Some 0, ls_last_timestamp = Some 1000,
                       ls_status = Some ''inactive'', ls_is_online = Some False,
                       ls_battery_level = None, is_stale = False, age_seconds = Some 300 \<rparr>
   \<and> get_live {} 301001 301001 (sample_world (Some 50)) ''s1''
       = Success 200 \<lparr> ls_last_reading = Some 0, ls_last_timestamp = Some 1000,
                       ls_status = Some ''inactive'', ls_is_online = Some False,
                       ls_battery_level = None, is_stale = True, age_seconds = Some 300 \<rparr>"
  using live_status_stale_iff_older_than_5_minutes
    [where out = "{}" and w = "sample_world (Some 50)" and sensorId = "''s1''"
       and liveData = "\<lparr> ls_last_reading = Some 0, ls_last_timestamp = Some 1000,
                ls_status = Some ''inactive'', ls_is_online = Some False,
                ls_battery_level = None \<rparr>"
       and ts = 1000 and now = 301000 and now' = 301000]
  by (simp add: get_live_def sample_sensor_def sample_world_def sample_env_def
      sample_request_def sample_ids_def)

text \<open>
  C7, at a failing input. The sample sensor has the threshold 30 and the reading the
  distance 40. Submitted alone, the reading is stored as \<open>normal\<close>; submitted in a batch,
  it is stored as \<open>alert\<close>, because the batch loop compares with the constant 50 and
  never reads the sensor. Both variants of the file behave so.
\<close>

theorem batch_status_ignores_sensor_threshold:
  "map rd_status (map snd (sensor_readings
       (fst (post_batch sample_env {} (\<lambda>i. 5000) (sample_world (Some 30)) (sample_batch 40)
               ''secret'')))) = [''alert'']
   \<and> map rd_status (map snd (sensor_readings
       (fst (post_reading sample_env {} 5000 5000 ''r1'' sample_ids (sample_world (Some 30))
               (sample_request 40))))) = [''normal'']
   \<and> map rd_status (map snd (sensor_readings
       (fst (post_batch_p3 sample_env {} (\<lambda>i. 5000) (sample_world (Some 30)) (sample_batch 40)
               ''secret'')))) = [''alert'']
   \<and> map rd_status (map snd (sensor_readings
       (fst (post_reading_p3 sample_env {} 5000 5000 ''r1'' sample_ids (sample_world (Some 30))
               (sample_request 40))))) = [''normal'']"
  by (simp add: post_batch_def post_batch_p3_def post_reading_def post_reading_p3_def
      sample_sensor_def sample_world_def sample_env_def
      sample_request_def sample_ids_def sample_batch_def or_default_def Let_def js_less_def rtdb_update_def)

theorem batch_status_ignores_sensor_threshold_witness:
  "map rd_status (map snd (sensor_readings
       (fst (post_batch sample_env {} (\<lambda>i. 5000) (sample_world (Some 30)) (sample_batch 40)
               ''secret''))))
   \<noteq> map rd_status (map snd (sensor_readings
       (fst (post_reading sample_env {} 5000 5000 ''r1'' sample_ids (sample_world (Some 30))
               (sample_request 40)))))"
  using batch_status_ignores_sensor_threshold by simp

section \<open>Properties of the analytics handlers\<close>

lemma getDay_less: "getDay tza t < 7"
  by (simp add: getDay_def nat_less_iff)

lemma getHours_less: "getHours tza t < 24"
  by (simp add: getHours_def nat_less_iff)

lemma row_total_bump:
  assumes "h < length row"
  shows "sum_list (row[h := row ! h + 1]) = sum_list row + (1::nat)"
proof -
  have "row ! h \<le> sum_list row"
    using assms by (simp add: member_le_sum_list)
  then show ?thesis
    using assms by (simp add: sum_list_update)
qed

lemma bump_cell_total:
  assumes "d < length hm" and "h < length (hm ! d)"
  shows "matrix_total (hm[d := (hm ! d)[h := hm ! d ! h + 1]]) = matrix_total hm + 1"
proof -
  have le: "sum_list (hm ! d) \<le> sum_list (map sum_list hm)"
    using assms(1) by (simp add: member_le_sum_list)
  have "matrix_total (hm[d := (hm ! d)[h := hm ! d ! h + 1]])
        = sum_list ((map sum_list hm)[d := sum_list (hm ! d) + 1])"
    by (simp only: matrix_total_def map_update row_total_bump[OF assms(2)])
  also have "\<dots> = sum_list (map sum_list hm) + (sum_list (hm ! d) + 1) - sum_list (hm ! d)"
    using assms(1) by (simp add: sum_list_update)
  also have "\<dots> = matrix_total hm + 1"
    using le by (simp add: matrix_total_def)
  finally show ?thesis .
qed

lemma bump_cell_keeps_shape:
  assumes "bump_cell hm d h = Some hm'" and "shaped hm"
  shows "shaped hm'"
  using assms
  by (auto simp: bump_cell_def shaped_def split: if_splits
      dest!: subsetD[OF set_update_subset_insert])

lemma bump_cell_in_range:
  assumes "shaped hm" and "d < 7" and "h < 24"
  shows "\<exists>hm'. bump_cell hm d h = Some hm' \<and> shaped hm' \<and> matrix_total hm' = matrix_total hm + 1"
proof -
  from assms have d: "d < length hm" and h: "h < length (hm ! d)"
    by (auto simp: shaped_def)
  then have b: "bump_cell hm d h = Some (hm[d := (hm ! d)[h := hm ! d ! h + 1]])"
    by (simp add: bump_cell_def)
  from bump_cell_keeps_shape[OF b assms(1)] bump_cell_total[OF d h] b show ?thesis
    by simp
qed

lemma bump_cell_nth:
  assumes "bump_cell hm d0 h0 = Some hm'" and "d < length hm" and "h < length (hm ! d)"
  shows "hm' ! d ! h = (if d = d0 \<and> h = h0 then hm ! d ! h + 1 else hm ! d ! h)"
  using assms
  by (auto simp: bump_cell_def nth_list_update split: if_splits)

text \<open>The scan never leaves the matrix, and adds one to the total for every document.\<close>

lemma heatmap_scan_total:
  "shaped hm \<Longrightarrow>
   \<exists>hm'. heatmap_scan tza snapshot hm = Some hm' \<and> shaped hm' \<and>
         matrix_total hm' = matrix_total hm + length snapshot"
proof (induction snapshot arbitrary: hm)
  case Nil
  then show ?case by simp
next
  case (Cons data rest)
  from bump_cell_in_range[OF Cons.prems getDay_less getHours_less]
  obtain hm1 where
    b: "bump_cell hm (getDay tza (ev_created_at data)) (getHours tza (ev_created_at data)) = Some hm1"
    and s: "shaped hm1" and t: "matrix_total hm1 = matrix_total hm + 1"
    by blast
  from Cons.IH[OF s] obtain hm' where "heatmap_scan tza rest hm1 = Some hm'" "shaped hm'"
    "matrix_total hm' = matrix_total hm1 + length rest"
    by blast
  with b t show ?case by simp
qed

text \<open>Each cell counts the documents of its weekday and hour.\<close>

lemma heatmap_scan_cells:
  "shaped hm \<Longrightarrow> heatmap_scan tza snapshot hm = Some hm' \<Longrightarrow> d < 7 \<Longrightarrow> h < 24 \<Longrightarrow>
   hm' ! d ! h = hm ! d ! h + length (filter (in_cell tza d h) snapshot)"
proof (induction snapshot arbitrary: hm)
  case Nil
  then show ?case by simp
next
  case (Cons data rest)
  from Cons.prems(2) obtain hm1 where
    b: "bump_cell hm (getDay tza (ev_created_at data)) (getHours tza (ev_created_at data)) = Some hm1"
    and r: "heatmap_scan tza rest hm1 = Some hm'"
    by (auto split: option.splits)
  have s1: "shaped hm1"
    by (rule bump_cell_keeps_shape[OF b Cons.prems(1)])
  from Cons.prems have dl: "d < length hm" and hl: "h < length (hm ! d)"
    by (auto simp: shaped_def)
  from Cons.IH[OF s1 r Cons.prems(3,4)] bump_cell_nth[OF b dl hl]
  show ?case
    by (auto simp: in_cell_def)
qed

lemma shaped_init: "shaped (replicate 7 (replicate 24 0))"
  by (simp add: shaped_def)

lemma total_init: "matrix_total (replicate 7 (replicate 24 0)) = 0"
  by (simp add: matrix_total_def)

lemma round2_zero: "round2 0 = 0"
proof -
  have "\<lfloor>1 / 2 :: rat\<rfloor> = 0"
    by (simp add: floor_eq_iff)
  then show ?thesis
    by (simp add: round2_def)
qed

text \<open>
  C6. For every snapshot of alert documents that the query of GET /heatmap returns, the
  reply is 200 with a matrix of 7 rows of 24 cells; the cell of weekday \<open>d\<close> and hour \<open>h\<close>
  holds the number of documents detected on that weekday in that hour (each document is
  counted in exactly one cell), and the sum of all cells is the number of documents.
\<close>

theorem heatmap_is_7_by_24_and_sums_to_total:
  "Query_alerts \<notin> out \<longrightarrow>
     (\<exists>r. get_heatmap out tza weeks snapshot = Success 200 r \<and>
          length (hm_heatmap r) = 7 \<and> (\<forall>row \<in> set (hm_heatmap r). length row = 24) \<and>
          matrix_total (hm_heatmap r) = length snapshot \<and>
          (\<forall>d<7. \<forall>h<24. hm_heatmap r ! d ! h = length (filter (in_cell tza d h) snapshot)))"
proof
  assume q: "Query_alerts \<notin> out"
  from heatmap_scan_total[OF shaped_init, of tza snapshot]
  obtain hm' where scan: "heatmap_scan tza snapshot (replicate 7 (replicate 24 0)) = Some hm'"
    and sh: "shaped hm'" and tot: "matrix_total hm' = length snapshot"
    by (auto simp: total_init)
  have cells: "\<forall>d<7. \<forall>h<24. hm' ! d ! h = length (filter (in_cell tza d h) snapshot)"
    using heatmap_scan_cells[OF shaped_init scan] by simp
  from q scan sh tot cells
  show "\<exists>r. get_heatmap out tza weeks snapshot = Success 200 r \<and>
          length (hm_heatmap r) = 7 \<and> (\<forall>row \<in> set (hm_heatmap r). length row = 24) \<and>
          matrix_total (hm_heatmap r) = length snapshot \<and>
          (\<forall>d<7. \<forall>h<24. hm_heatmap r ! d ! h = length (filter (in_cell tza d h) snapshot))"
    by (simp add: get_heatmap_def shaped_def)
qed

text \<open>
  With the server on UTC the two sample alerts fall on Thursday, hour 0, and on Friday,
  hour 1.
\<close>

lemma sample_events_cells:
  "getDay (\<lambda>t. 0) 0 = 4" "getHours (\<lambda>t. 0) 0 = 0"
  "getDay (\<lambda>t. 0) 90000000 = 5" "getHours (\<lambda>t. 0) 90000000 = 1"
  by (simp_all add: getDay_def getHours_def)

lemma sample_events_heatmap:
  "get_heatmap {} (\<lambda>t. 0) (Some 4) sample_events =
     Success 200
       \<lparr> hm_weeks = Some 4,
         hm_heatmap = (replicate 7 (replicate 24 0))
                        [4 := (replicate 24 0)[0 := 1], 5 := (replicate 24 0)[1 := 1]],
         hm_days = [''Sunday'', ''Monday'', ''Tuesday'', ''Wednesday'', ''Thursday'',
                    ''Friday'', ''Saturday''],
         hm_hours = [0..<24] \<rparr>"
  by (simp add: get_heatmap_def sample_events_def bump_cell_def sample_events_cells)

theorem heatmap_is_7_by_24_and_sums_to_total_witness:
  "Query_alerts \<notin> ({} :: outage)
   \<and> get_heatmap {} (\<lambda>t. 0) (Some 4) sample_events =
       Success 200
         \<lparr> hm_weeks = Some 4,
           hm_heatmap = (replicate 7 (replicate 24 0))
                          [4 := (replicate 24 0)[0 := 1], 5 := (replicate 24 0)[1 := 1]],
           hm_days = [''Sunday'', ''Monday'', ''Tuesday'', ''Wednesday'', ''Thursday'',
                      ''Friday'', ''Saturday''],
           hm_hours = [0..<24] \<rparr>
   \<and> length sample_events = 2
   \<and> (\<exists>r. get_heatmap {} (\<lambda>t. 0) (Some 4) sample_events = Success 200 r \<and>
          length (hm_heatmap r) = 7 \<and> (\<forall>row \<in> set (hm_heatmap r). length row = 24) \<and>
          matrix_total (hm_heatmap r) = length sample_events \<and>
          (\<forall>d<7. \<forall>h<24. hm_heatmap r ! d ! h
                            = length (filter (in_cell (\<lambda>t. 0) d h) sample_events)))"
proof -
  have n: "length sample_events = 2"
    by (simp add: sample_events_def)
  from heatmap_is_7_by_24_and_sums_to_total
    [where out = "{}" and tza = "\<lambda>t. 0" and weeks = "Some 4" and snapshot = sample_events]
  have "\<exists>r. get_heatmap {} (\<lambda>t. 0) (Some 4) sample_events = Success 200 r \<and>
          length (hm_heatmap r) = 7 \<and> (\<forall>row \<in> set (hm_heatmap r). length row = 24) \<and>
          matrix_total (hm_heatmap r) = length sample_events \<and>
          (\<forall>d<7. \<forall>h<24. hm_heatmap r ! d ! h
                            = length (filter (in_cell (\<lambda>t. 0) d h) sample_events))"
    by simp
  with n sample_events_heatmap show ?thesis
    by blast
qed

text \<open>
  C9. When the query of an analytics handler succeeds and returns no document, the
  dashboard, device-detail, hourly, heatmap and trends handlers reply 200 with zero
  statistics: average distance 0, minimum distance 0 (not infinity), and buckets that are
  zero or absent. No division is carried out on the empty snapshot.
\<close>

theorem empty_range_gives_zero_statistics:
  "Query_alerts \<notin> out \<longrightarrow>
     get_dashboard out timeRange [] =
       Success 200 \<lparr> db_timeRange = timeRange, db_totalAlerts = 0, db_activeAlerts = 0,
                     db_totalDevices = 0, db_avgDistance = 0, db_alertRate = 0 \<rparr>
   \<and> get_device_detail out deviceId [] =
       Success 200 \<lparr> dt_deviceId = deviceId, dt_totalAlerts = 0, dt_activeAlerts = 0,
                     dt_avgDistance = 0, dt_minDistance = 0, dt_maxDistance = 0 \<rparr>
   \<and> get_hourly out tza targetDate [] =
       Success 200 \<lparr> hr_date = dateKey_of targetDate,
                     hr_hourly = map (\<lambda>i. \<lparr> hb_hour = i, hb_total = 0, hb_alerts = 0,
                                             hb_normal = 0 \<rparr>) [0..<24] \<rparr>
   \<and> get_heatmap out tza weeks [] =
       Success 200 \<lparr> hm_weeks = weeks, hm_heatmap = replicate 7 (replicate 24 0),
                     hm_days = [''Sunday'', ''Monday'', ''Tuesday'', ''Wednesday'', ''Thursday'',
                                ''Friday'', ''Saturday''],
                     hm_hours = [0..<24] \<rparr>
   \<and> (startDate \<notin> {None, Some []} \<longrightarrow> endDate \<notin> {None, Some []} \<longrightarrow>
        get_trends out bucket_key startDate endDate interval [] =
          Success 200 \<lparr> tr_interval = interval, tr_trends = [] \<rparr>)"
  by (simp add: get_dashboard_def get_device_detail_def get_hourly_def get_heatmap_def
      get_trends_def round2_zero)

theorem empty_range_gives_zero_statistics_witness:
  "Query_alerts \<notin> ({} :: outage)
   \<and> get_dashboard {} ''week'' [] =
       Success 200 \<lparr> db_timeRange = ''week'', db_totalAlerts = 0, db_activeAlerts = 0,
                     db_totalDevices = 0, db_avgDistance = 0, db_alertRate = 0 \<rparr>
   \<and> get_device_detail {} ''s1'' [] =
       Success 200 \<lparr> dt_deviceId = ''s1'', dt_totalAlerts = 0, dt_activeAlerts = 0,
                     dt_avgDistance = 0, dt_minDistance = 0, dt_maxDistance = 0 \<rparr>
   \<and> Some ''2024-01-01'' \<notin> {None, Some []} \<and> Some ''2024-01-31'' \<notin> {None, Some []}
   \<and> get_trends {} (\<lambda>interval t. ''bucket'') (Some ''2024-01-01'') (Some ''2024-01-31'')
         ''day'' [] = Success 200 \<lparr> tr_interval = ''day'', tr_trends = [] \<rparr>"
  using empty_range_gives_zero_statistics
    [where out = "{}" and timeRange = "''week''" and deviceId = "''s1''"
       and startDate = "Some ''2024-01-01''" and endDate = "Some ''2024-01-31''"
       and interval = "''day''" and bucket_key = "\<lambda>interval t. ''bucket''"]
  by simp

section \<open>Properties of the counters\<close>

lemma delete_livestock_effect:
  assumes "delete_livestock out w livestockId = (w', Success 200 r)"
    and "map_of (livestock w) livestockId = Some L"
  shows "map_of (livestock w') = (map_of (livestock w))(livestockId := None)
    \<and> zone_count w' (lv_zone_id L) = increment (- 1) (zone_count w (lv_zone_id L))
    \<and> (\<forall>c. zone_count w (lv_zone_id L) = Some c \<longrightarrow> zone_count w' (lv_zone_id L) = Some (c - 1))
    \<and> (\<forall>z. z \<noteq> lv_zone_id L \<longrightarrow> zone_count w' z = zone_count w z)
    \<and> farm_count w' (lv_farm_id L) = increment (- 1) (farm_count w (lv_farm_id L))
    \<and> (\<forall>c. farm_count w (lv_farm_id L) = Some c \<longrightarrow> farm_count w' (lv_farm_id L) = Some (c - 1))
    \<and> (\<forall>f. f \<noteq> lv_farm_id L \<longrightarrow> farm_count w' f = farm_count w f)
    \<and> farmers w' = farmers w"
  using assms
  by (auto simp: delete_livestock_def livestock_failed_def Let_def update_conv' delete_conv'
        zone_count_def farm_count_def increment_def
      split: if_splits option.splits)

text \<open>
  C8. When DELETE /:livestockId replies 200 for the existing livestock document \<open>L\<close> of
  zone \<open>Z\<close> and farm \<open>F\<close>, the document \<open>L\<close> is gone and no other livestock document
  changed, \<open>Z.current_livestock_count\<close> and \<open>F.livestock_count\<close> are each one less than
  before, the counters of every other zone and farm are as before, and the farmers'
  documents are untouched.
\<close>

theorem delete_livestock_decrements_both_counters:
  "delete_livestock out w livestockId = (w', Success 200 r) \<longrightarrow>
   map_of (livestock w) livestockId = Some L \<longrightarrow>
     map_of (livestock w') = (map_of (livestock w))(livestockId := None)
     \<and> zone_count w' (lv_zone_id L) = increment (- 1) (zone_count w (lv_zone_id L))
     \<and> (\<forall>c. zone_count w (lv_zone_id L) = Some c \<longrightarrow> zone_count w' (lv_zone_id L) = Some (c - 1))
     \<and> (\<forall>z. z \<noteq> lv_zone_id L \<longrightarrow> zone_count w' z = zone_count w z)
     \<and> farm_count w' (lv_farm_id L) = increment (- 1) (farm_count w (lv_farm_id L))
     \<and> (\<forall>c. farm_count w (lv_farm_id L) = Some c \<longrightarrow> farm_count w' (lv_farm_id L) = Some (c - 1))
     \<and> (\<forall>f. f \<noteq> lv_farm_id L \<longrightarrow> farm_count w' f = farm_count w f)
     \<and> farmers w' = farmers w"
  using delete_livestock_effect[of out w livestockId w' r L]
  by blast

theorem delete_livestock_decrements_both_counters_witness:
  "delete_livestock {} (sample_world (Some 50)) ''l1''
     = (fst (delete_livestock {} (sample_world (Some 50)) ''l1''),
        Success 200 \<lparr> rm_livestock_id = ''l1'', rm_identification_tag = ''TAG-1'' \<rparr>)
   \<and> map_of (livestock (sample_world (Some 50))) ''l1''
       = Some \<lparr> lv_zone_id = ''z1'', lv_farm_id = ''f1'', lv_identification_tag = ''TAG-1'' \<rparr>
   \<and> zone_count (sample_world (Some 50)) ''z1'' = Some 1
   \<and> zone_count (fst (delete_livestock {} (sample_world (Some 50)) ''l1'')) ''z1'' = Some 0
   \<and> zone_count (fst (delete_livestock {} (sample_world (Some 50)) ''l1'')) ''z2'' = Some 0
   \<and> farm_count (sample_world (Some 50)) ''f1'' = Some 1
   \<and> farm_count (fst (delete_livestock {} (sample_world (Some 50)) ''l1'')) ''f1'' = Some 0
   \<and> livestock (fst (delete_livestock {} (sample_world (Some 50)) ''l1'')) = []"
  using delete_livestock_decrements_both_counters
    [where out = "{}" and w = "sample_world (Some 50)" and livestockId = "''l1''"
       and w' = "fst (delete_livestock {} (sample_world (Some 50)) ''l1'')"
       and r = "\<lparr> rm_livestock_id = ''l1'', rm_identification_tag = ''TAG-1'' \<rparr>"
       and L = "\<lparr> lv_zone_id = ''z1'', lv_farm_id = ''f1'', lv_identification_tag = ''TAG-1'' \<rparr>"]
  by (simp add: delete_livestock_def sample_sensor_def sample_world_def sample_env_def
      sample_request_def sample_ids_def Let_def zone_count_def farm_count_def
      increment_def)

lemma filter_delete_other:
  assumes "\<forall>(k, v) \<in> set al. k = x \<longrightarrow> \<not> P (k, v)"
  shows "filter P (AList.delete x al) = filter P al"
  using assms by (induction al) auto

text \<open>
  C10. In the farm deletion of \<open>unnamed/part_006\<close>, a request succeeds whenever the store
  accepts the two writes and the farmer's document exists, whatever the farm id. Every
  successful request removes the farm document of that id, if any, and takes exactly one
  from the caller's \<open>farms_count\<close>. When the id is not the id of a farm of the caller
  (no such farm, or somebody else's), the caller's farms are as before, so a counter that
  was equal to the number of the caller's farms is one below it afterwards.
\<close>

theorem delete_farm_always_decrements_farms_count:
  "(Delete_farm \<notin> out \<longrightarrow> Update_farmer \<notin> out \<longrightarrow> map_of (farmers w) farmer_id \<noteq> None \<longrightarrow>
      (\<exists>w'. delete_farm out w farmer_id farmId = (w', Success 200 ())))
   \<and>
   (delete_farm out w farmer_id farmId = (w', Success 200 u) \<longrightarrow>
      farms w' = AList.delete farmId (farms w)
      \<and> farms_count w' farmer_id = increment (- 1) (farms_count w farmer_id)
      \<and> (\<forall>c. farms_count w farmer_id = Some c \<longrightarrow> farms_count w' farmer_id = Some (c - 1))
      \<and> ((\<forall>(k, farm) \<in> set (farms w). k = farmId \<longrightarrow> fm_farmer_id farm \<noteq> farmer_id) \<longrightarrow>
           farms_of w' farmer_id = farms_of w farmer_id
           \<and> (farms_count w farmer_id = Some (int (length (farms_of w farmer_id))) \<longrightarrow>
                farms_count w' farmer_id = Some (int (length (farms_of w' farmer_id)) - 1))))"
proof (intro conjI impI)
  assume "Delete_farm \<notin> out" "Update_farmer \<notin> out" "map_of (farmers w) farmer_id \<noteq> None"
  then show "\<exists>w'. delete_farm out w farmer_id farmId = (w', Success 200 ())"
    by (auto simp: delete_farm_def Let_def)
next
  assume ok: "delete_farm out w farmer_id farmId = (w', Success 200 u)"
  then show f: "farms w' = AList.delete farmId (farms w)"
    by (auto simp: delete_farm_def farm_failed_def Let_def split: if_splits option.splits)
  from ok show c: "farms_count w' farmer_id = increment (- 1) (farms_count w farmer_id)"
    by (auto simp: delete_farm_def farm_failed_def Let_def farms_count_def update_conv'
        increment_def split: if_splits option.splits)
  then show "\<forall>c. farms_count w farmer_id = Some c \<longrightarrow> farms_count w' farmer_id = Some (c - 1)"
    by (simp add: increment_def)
  {
    assume other: "\<forall>(k, farm) \<in> set (farms w). k = farmId \<longrightarrow> fm_farmer_id farm \<noteq> farmer_id"
    then have "filter (\<lambda>(farmId, farm). fm_farmer_id farm = farmer_id) (AList.delete farmId (farms w))
          = filter (\<lambda>(farmId, farm). fm_farmer_id farm = farmer_id) (farms w)"
      by (intro filter_delete_other) auto
    with f show same: "farms_of w' farmer_id = farms_of w farmer_id"
      by (simp add: farms_of_def)
    {
      assume "farms_count w farmer_id = Some (int (length (farms_of w farmer_id)))"
      with c same
      show "farms_count w' farmer_id = Some (int (length (farms_of w' farmer_id)) - 1)"
        by (simp add: increment_def)
    }
  }
qed

text \<open>
  The farmer \<open>u1\<close> has one farm and the counter 1. Deleting a farm id that does not exist
  succeeds and leaves the counter at 0 with the farm still there; doing it again leaves -1.
\<close>

theorem delete_farm_always_decrements_farms_count_witness:
  "Delete_farm \<notin> ({} :: outage) \<and> Update_farmer \<notin> ({} :: outage)
   \<and> map_of (farmers (sample_world (Some 50))) ''u1'' \<noteq> None
   \<and> delete_farm {} (sample_world (Some 50)) ''u1'' ''nope''
       = (fst (delete_farm {} (sample_world (Some 50)) ''u1'' ''nope''), Success 200 ())
   \<and> farms_count (sample_world (Some 50)) ''u1'' = Some 1
   \<and> length (farms_of (sample_world (Some 50)) ''u1'') = 1
   \<and> farms_count (fst (delete_farm {} (sample_world (Some 50)) ''u1'' ''nope'')) ''u1'' = Some 0
   \<and> length (farms_of (fst (delete_farm {} (sample_world (Some 50)) ''u1'' ''nope'')) ''u1'') = 1
   \<and> farms_count (fst (delete_farm {}
         (fst (delete_farm {} (sample_world (Some 50)) ''u1'' ''nope'')) ''u1'' ''nope'')) ''u1''
       = Some (- 1)"
  using delete_farm_always_decrements_farms_count
    [where out = "{}" and w = "sample_world (Some 50)" and farmer_id = "''u1''"
       and farmId = "''nope''"
       and w' = "fst (delete_farm {} (sample_world (Some 50)) ''u1'' ''nope'')" and u = "()"]
  by (simp add: delete_farm_def sample_sensor_def sample_world_def sample_env_def
      sample_request_def sample_ids_def Let_def farms_count_def farms_of_def increment_def)

end
